theory Spec2Isabelle
  imports Main "HOL-Library.Word"
begin

section \<open>X utility functions of common/xutil.c\<close>

text \<open>
  A shallow embedding of \<^verbatim>\<open>src/common/xutil.c\<close>. The X server is an external
  collaborator: a function that waits for a reply takes, as an argument, what the
  blocking \<^verbatim>\<open>xcb_..._reply\<close> call hands back (\<open>None\<close> is the \<^verbatim>\<open>NULL\<close> reply).
  Memory objects are byte lists; a read or write outside an object, a dereference of
  \<^verbatim>\<open>NULL\<close> and a signed overflow are undefined behaviour in C and are values of
  the type \<open>fault\<close> here. Integer widths follow an LP64 target: \<^verbatim>\<open>ssize_t\<close> and
  \<^verbatim>\<open>size_t\<close> have 64 bits, \<^verbatim>\<open>int\<close> and \<^verbatim>\<open>uint32_t\<close> have 32.
\<close>

unbundle bit_operations_syntax

subsection \<open>Types and constants\<close>

type_synonym byte = "8 word"
type_synonym xcb_atom_t = "32 word"
type_synonym xcb_window_t = "32 word"
type_synonym xcb_keycode_t = "8 word"
type_synonym xcb_keysym_t = "32 word"
type_synonym ssize_t = "64 word"

datatype fault = Null_deref | Oob_read | Oob_write | Signed_overflow

text \<open>
  The predefined atoms and the keysyms come from the X headers
  (\<^verbatim>\<open>xcb/xcb_atom.h\<close>, \<^verbatim>\<open>xcb/xproto.h\<close>, \<^verbatim>\<open>X11/keysymdef.h\<close>), with the values
  of the core protocol.
\<close>

definition STRING :: xcb_atom_t where
  "STRING = 31"

definition WINDOW :: xcb_atom_t where
  "WINDOW = 33"

definition XCB_NONE :: xcb_window_t where
  "XCB_NONE = 0"

definition XK_Num_Lock :: xcb_keysym_t where
  "XK_Num_Lock = 0xff7f"

definition XK_Shift_Lock :: xcb_keysym_t where
  "XK_Shift_Lock = 0xffe6"

definition XK_Caps_Lock :: xcb_keysym_t where
  "XK_Caps_Lock = 0xffe5"

text \<open>
  \<^verbatim>\<open>xcb_get_property_reply_t\<close>: the fields the file reads, and the bytes that follow
  the 32-byte header in the reply buffer (what \<^verbatim>\<open>xcb_get_property_value\<close> points to).
  The field \<^verbatim>\<open>length\<close> counts these bytes in units of four.
\<close>

record xcb_get_property_reply_t =
  format :: "8 word"
  type_atom :: xcb_atom_t
  value_len :: "32 word"
  length_units :: "32 word"
  property_value :: "byte list"

text \<open>
  What xcb guarantees of a reply it hands over: the buffer holds \<^verbatim>\<open>length\<close> units
  of four bytes after the header, and the \<^verbatim>\<open>value_len\<close> items of the value lie
  inside them.
\<close>

definition reply_wf :: "xcb_get_property_reply_t \<Rightarrow> bool" where
  "reply_wf r =
     (length (property_value r) = 4 * unat (length_units r) \<and>
      unat (value_len r) * (unat (format r) div 8) \<le> length (property_value r))"

text \<open>The calls into the X library that a function makes, in order.\<close>

datatype xcb_call =
    Get_property_unchecked
  | Get_property_reply
  | Intern_atom string
  | P_delete_reply

subsection \<open>Memory\<close>

text \<open>
  \<^verbatim>\<open>memcpy(dst, src, n)\<close> on two objects: the new contents of \<open>dst\<close> and the
  offsets written.
\<close>

definition memcpy :: "byte list \<Rightarrow> byte list \<Rightarrow> nat \<Rightarrow> fault + (byte list \<times> nat list)" where
  "memcpy dst src n =
     (if length src < n then Inl Oob_read
      else if length dst < n then Inl Oob_write
      else Inr (take n src @ drop n dst, [0..<n]))"

text \<open>\<^verbatim>\<open>dst[i] = v\<close> for a signed index \<open>i\<close>.\<close>

definition store :: "byte list \<Rightarrow> int \<Rightarrow> byte \<Rightarrow> fault + (byte list \<times> nat list)" where
  "store dst i v =
     (if i < 0 \<or> int (length dst) \<le> i then Inl Oob_write
      else Inr (dst[nat i := v], [nat i]))"

subsection \<open>xutil_intern_atom\<close>

text \<open>
  The argument is the reply to the InternAtom request: \<open>None\<close> for a \<^verbatim>\<open>NULL\<close>
  reply, \<open>Some a\<close> for a reply whose field \<^verbatim>\<open>atom\<close> is \<open>a\<close>.
\<close>

definition xutil_intern_atom :: "xcb_atom_t option \<Rightarrow> xcb_atom_t" where
  "xutil_intern_atom r_atom = (case r_atom of None \<Rightarrow> 0 | Some a \<Rightarrow> a)"

subsection \<open>xutil_gettextprop\<close>

text \<open>
  The outcome of a call that returns: the return value, the caller's buffer after the
  call (\<open>None\<close> for a \<^verbatim>\<open>NULL\<close> pointer), the offsets of \<^verbatim>\<open>text\<close> stored to, and
  the X library calls made.
\<close>

record textprop_result =
  ret :: bool
  text_out :: "byte list option"
  stores :: "nat list"
  calls :: "xcb_call list"

text \<open>
  Lines 74 to 84: the copy into the caller's buffer. \<^verbatim>\<open>value_len\<close> is converted
  to \<^verbatim>\<open>ssize_t\<close> for the comparison; \<^verbatim>\<open>textlen - 2\<close> is converted to
  \<^verbatim>\<open>size_t\<close> for \<^verbatim>\<open>memcpy\<close>.
\<close>

definition copy_value ::
  "xcb_get_property_reply_t \<Rightarrow> byte list \<Rightarrow> ssize_t \<Rightarrow> fault + (byte list \<times> nat list)" where
  "copy_value r buf textlen =
     (if sint textlen - 1 < - (2 ^ 63) then Inl Signed_overflow
      else if uint (value_len r) < sint textlen - 1 then
        (case memcpy buf (property_value r) (unat (value_len r)) of
           Inl e \<Rightarrow> Inl e
         | Inr (b1, w1) \<Rightarrow>
             (case store b1 (uint (value_len r)) 0 of
                Inl e \<Rightarrow> Inl e
              | Inr (b2, w2) \<Rightarrow> Inr (b2, w1 @ w2)))
      else if sint textlen - 2 < - (2 ^ 63) then Inl Signed_overflow
      else
        (case memcpy buf (property_value r) (unat (textlen - 2)) of
           Inl e \<Rightarrow> Inl e
         | Inr (b1, w1) \<Rightarrow>
             (case store b1 (sint textlen - 1) 0 of
                Inl e \<Rightarrow> Inl e
              | Inr (b2, w2) \<Rightarrow> Inr (b2, w1 @ w2))))"

text \<open>
  \<open>prop_r\<close> is the reply to the GetProperty request, \<open>utf8_r\<close> the reply to the
  InternAtom request for \<^verbatim>\<open>UTF8_STRING\<close>, which is sent only when the type is not
  \<^verbatim>\<open>STRING\<close> (the right operand of \<^verbatim>\<open>||\<close>).
\<close>

definition xutil_gettextprop ::
  "xcb_get_property_reply_t option \<Rightarrow> xcb_atom_t option \<Rightarrow> byte list option \<Rightarrow> ssize_t
     \<Rightarrow> fault + textprop_result" where
  "xutil_gettextprop prop_r utf8_r text textlen =
     (case text of
        None \<Rightarrow>
          Inr \<lparr>ret = False, text_out = text, stores = [], calls = [Get_property_unchecked]\<rparr>
      | Some buf \<Rightarrow>
          if textlen = 0 then
            Inr \<lparr>ret = False, text_out = text, stores = [], calls = [Get_property_unchecked]\<rparr>
          else
            (case prop_r of
               None \<Rightarrow>
                 Inr \<lparr>ret = False, text_out = text, stores = [],
                      calls = [Get_property_unchecked, Get_property_reply]\<rparr>
             | Some r \<Rightarrow>
                 if value_len r = 0 \<or> format r \<noteq> 8 then
                   Inr \<lparr>ret = False, text_out = text, stores = [],
                        calls = [Get_property_unchecked, Get_property_reply, P_delete_reply]\<rparr>
                 else if type_atom r = STRING then
                   (case copy_value r buf textlen of
                      Inl e \<Rightarrow> Inl e
                    | Inr (b, w) \<Rightarrow>
                        Inr \<lparr>ret = True, text_out = Some b, stores = w,
                             calls = [Get_property_unchecked, Get_property_reply,
                                      P_delete_reply]\<rparr>)
                 else if type_atom r = xutil_intern_atom utf8_r then
                   (case copy_value r buf textlen of
                      Inl e \<Rightarrow> Inl e
                    | Inr (b, w) \<Rightarrow>
                        Inr \<lparr>ret = True, text_out = Some b, stores = w,
                             calls = [Get_property_unchecked, Get_property_reply,
                                      Intern_atom ''UTF8_STRING'', P_delete_reply]\<rparr>)
                 else
                   Inr \<lparr>ret = True, text_out = text, stores = [],
                        calls = [Get_property_unchecked, Get_property_reply,
                                 Intern_atom ''UTF8_STRING'', P_delete_reply]\<rparr>))"

subsection \<open>xutil_getlockmask\<close>

text \<open>
  \<^verbatim>\<open>xcb_get_modifier_mapping_reply_t\<close>: the field read by the loop and the keycodes
  that follow the header (\<^verbatim>\<open>xcb_get_modifier_mapping_keycodes\<close>), eight rows of
  \<^verbatim>\<open>keycodes_per_modifier\<close> entries.
\<close>

record xcb_get_modifier_mapping_reply_t =
  keycodes_per_modifier :: "8 word"
  keycodes :: "xcb_keycode_t list"

text \<open>
  The three output pointers: \<open>None\<close> is a \<^verbatim>\<open>NULL\<close> pointer, \<open>Some v\<close> a pointer
  to an \<^verbatim>\<open>unsigned int\<close> that holds \<open>v\<close>.
\<close>

record lock_masks =
  numlockmask :: "32 word option"
  shiftlockmask :: "32 word option"
  capslockmask :: "32 word option"

text \<open>A \<^verbatim>\<open>for\<close> loop over the given indices, stopping at the first fault.\<close>

fun for_loop :: "nat list \<Rightarrow> (nat \<Rightarrow> 's \<Rightarrow> fault + 's) \<Rightarrow> 's \<Rightarrow> fault + 's" where
  "for_loop [] body s = Inr s"
| "for_loop (i # is) body s =
     (case body i s of Inl e \<Rightarrow> Inl e | Inr s' \<Rightarrow> for_loop is body s')"

text \<open>
  The body of the inner loop, lines 111 to 122. \<open>keysyms k\<close> is
  \<^verbatim>\<open>xcb_key_symbols_get_keycode(keysyms, k)\<close>.
\<close>

definition lock_cell ::
  "(xcb_keysym_t \<Rightarrow> xcb_keycode_t) \<Rightarrow> xcb_get_modifier_mapping_reply_t \<Rightarrow> nat \<Rightarrow> nat
     \<Rightarrow> lock_masks \<Rightarrow> fault + lock_masks" where
  "lock_cell keysyms r i j m =
     (if length (keycodes r) \<le> i * unat (keycodes_per_modifier r) + j then Inl Oob_read
      else
        let kc = keycodes r ! (i * unat (keycodes_per_modifier r) + j);
            mask = push_bit i (1 :: 32 word)
        in
          if numlockmask m \<noteq> None \<and> kc = keysyms XK_Num_Lock then
            Inr (m\<lparr>numlockmask := Some mask\<rparr>)
          else if shiftlockmask m \<noteq> None \<and> kc = keysyms XK_Shift_Lock then
            Inr (m\<lparr>shiftlockmask := Some mask\<rparr>)
          else if capslockmask m \<noteq> None \<and> kc = keysyms XK_Caps_Lock then
            Inr (m\<lparr>capslockmask := Some mask\<rparr>)
          else Inr m)"

text \<open>
  The reply is not tested before \<^verbatim>\<open>modmap_r->keycodes_per_modifier\<close> is read in the
  first loop condition.
\<close>

definition xutil_getlockmask ::
  "xcb_get_modifier_mapping_reply_t option \<Rightarrow> (xcb_keysym_t \<Rightarrow> xcb_keycode_t) \<Rightarrow> lock_masks
     \<Rightarrow> fault + lock_masks" where
  "xutil_getlockmask modmap_r keysyms m =
     (case modmap_r of
        None \<Rightarrow> Inl Null_deref
      | Some r \<Rightarrow>
          for_loop [0..<8]
            (\<lambda>i. for_loop [0..<unat (keycodes_per_modifier r)] (\<lambda>j. lock_cell keysyms r i j)) m)"


datatype lock = Num_Lock | Shift_Lock | Caps_Lock

text \<open>
  The lock that a cell with keycode \<open>kc\<close> is assigned to by the chain of lines 114 to
  122: the first one, in the order Num Lock, Shift Lock, Caps Lock, whose output pointer
  is not null and whose keycode is \<open>kc\<close>.
\<close>

definition cell_lock ::
  "(xcb_keysym_t \<Rightarrow> xcb_keycode_t) \<Rightarrow> lock_masks \<Rightarrow> xcb_keycode_t \<Rightarrow> lock option" where
  "cell_lock keysyms m kc =
     (if numlockmask m \<noteq> None \<and> kc = keysyms XK_Num_Lock then Some Num_Lock
      else if shiftlockmask m \<noteq> None \<and> kc = keysyms XK_Shift_Lock then Some Shift_Lock
      else if capslockmask m \<noteq> None \<and> kc = keysyms XK_Caps_Lock then Some Caps_Lock
      else None)"

text \<open>The effect of one cell of row \<open>i\<close> on the outputs.\<close>

definition assign_cell ::
  "(xcb_keysym_t \<Rightarrow> xcb_keycode_t) \<Rightarrow> nat \<times> xcb_keycode_t \<Rightarrow> lock_masks \<Rightarrow> lock_masks" where
  "assign_cell keysyms c m =
     (case cell_lock keysyms m (snd c) of
        None \<Rightarrow> m
      | Some Num_Lock \<Rightarrow> m\<lparr>numlockmask := Some (push_bit (fst c) 1)\<rparr>
      | Some Shift_Lock \<Rightarrow> m\<lparr>shiftlockmask := Some (push_bit (fst c) 1)\<rparr>
      | Some Caps_Lock \<Rightarrow> m\<lparr>capslockmask := Some (push_bit (fst c) 1)\<rparr>)"


subsection \<open>xutil_get_transient_for_hint\<close>

text \<open>
  A 32-bit unit read through a cast pointer: the first four bytes in the byte order of
  the host.
\<close>

definition load32 :: "bool \<Rightarrow> byte list \<Rightarrow> 32 word" where
  "load32 big_endian bs =
     (if big_endian then
        push_bit 24 (ucast (bs ! 0)) OR push_bit 16 (ucast (bs ! 1)) OR
        push_bit 8 (ucast (bs ! 2)) OR ucast (bs ! 3)
      else
        ucast (bs ! 0) OR push_bit 8 (ucast (bs ! 1)) OR
        push_bit 16 (ucast (bs ! 2)) OR push_bit 24 (ucast (bs ! 3)))"

text \<open>\<^verbatim>\<open>*prop_win = w\<close>: \<open>None\<close> is a \<^verbatim>\<open>NULL\<close> pointer.\<close>

definition set_prop_win ::
  "xcb_window_t option \<Rightarrow> xcb_window_t \<Rightarrow> bool \<Rightarrow> fault + (bool \<times> xcb_window_t)" where
  "set_prop_win prop_win w b = (case prop_win of None \<Rightarrow> Inl Null_deref | Some _ \<Rightarrow> Inr (b, w))"

text \<open>The result is the return value and the window that \<^verbatim>\<open>prop_win\<close> points to.\<close>

definition xutil_get_transient_for_hint ::
  "bool \<Rightarrow> xcb_get_property_reply_t option \<Rightarrow> xcb_window_t option
     \<Rightarrow> fault + (bool \<times> xcb_window_t)" where
  "xutil_get_transient_for_hint big_endian t_hint_r prop_win =
     (case t_hint_r of
        None \<Rightarrow> set_prop_win prop_win XCB_NONE False
      | Some r \<Rightarrow>
          if type_atom r \<noteq> WINDOW \<or> format r \<noteq> 32 \<or> length_units r = 0 then
            set_prop_win prop_win XCB_NONE False
          else if length (property_value r) < 4 then Inl Oob_read
          else set_prop_win prop_win (load32 big_endian (property_value r)) True)"

subsection \<open>xutil_get_class_hint\<close>

record class_hint_t =
  res_name :: "byte list"
  res_class :: "byte list"

text \<open>
  Modelled from the spec: \<^verbatim>\<open>a_strlen\<close> of \<^verbatim>\<open>common/util.h\<close>, which is not
  under \<^verbatim>\<open>src/\<close>; the spec calls its result "the C-string length". The argument is
  the object from the pointer on: the bytes before the first zero byte are counted, and a
  scan that finds none reads past the object.
\<close>

fun a_strlen :: "byte list \<Rightarrow> fault + nat" where
  "a_strlen [] = Inl Oob_read"
| "a_strlen (b # bs) =
     (if b = 0 then Inr 0
      else (case a_strlen bs of Inl e \<Rightarrow> Inl e | Inr n \<Rightarrow> Inr (Suc n)))"

text \<open>
  \<^verbatim>\<open>strndup(s, n)\<close> of the C library: a copy of the bytes before the first zero
  byte, \<open>n\<close> of them at most.
\<close>

definition strndup :: "byte list \<Rightarrow> nat \<Rightarrow> fault + byte list" where
  "strndup s n =
     (let p = takeWhile (\<lambda>b. b \<noteq> 0) (take n s)
      in if length p < n \<and> length s \<le> length p then Inl Oob_read else Inr p)"

text \<open>
  The two tests of line 206 are evaluated left to right. The lengths are stored in
  \<^verbatim>\<open>int\<close> variables; the request asks for 2048 units at most, so that the
  conversion is exact (\<open>len_class'\<close> is the variable \<^verbatim>\<open>len_class\<close>).
\<close>

definition xutil_get_class_hint ::
  "xcb_get_property_reply_t option \<Rightarrow> fault + class_hint_t option" where
  "xutil_get_class_hint class_hint_r =
     (case class_hint_r of
        None \<Rightarrow> Inr None
      | Some r \<Rightarrow>
          if type_atom r \<noteq> STRING then Inr None
          else if format r \<noteq> 8 then Inr None
          else
            (case a_strlen (property_value r) of
               Inl e \<Rightarrow> Inl e
             | Inr len_name \<Rightarrow>
                 (case a_strlen (drop (len_name + 1) (property_value r)) of
                    Inl e \<Rightarrow> Inl e
                  | Inr len_class' \<Rightarrow>
                      (case strndup (property_value r) len_name of
                         Inl e \<Rightarrow> Inl e
                       | Inr n \<Rightarrow>
                           (case strndup (drop (len_name + 1) (property_value r)) len_class' of
                              Inl e \<Rightarrow> Inl e
                            | Inr c \<Rightarrow> Inr (Some \<lparr>res_name = n, res_class = c\<rparr>))))))"

subsection \<open>xutil_get_error\<close>

definition xutil_error_label :: "string list" where
  "xutil_error_label =
   [
    ''Success'', ''BadRequest'', ''BadValue'', ''BadWindow'', ''BadPixmap'', ''BadAtom'',
    ''BadCursor'', ''BadFont'', ''BadMatch'', ''BadDrawable'', ''BadAccess'', ''BadAlloc'',
    ''BadColor'', ''BadGC'', ''BadIDChoice'', ''BadName'', ''BadLength'',
    ''BadImplementation''
   ]"

definition xutil_request_label :: "string list" where
  "xutil_request_label =
   [
    ''None'', ''CreateWindow'', ''ChangeWindowAttributes'', ''GetWindowAttributes'',
    ''DestroyWindow'', ''DestroySubwindows'', ''ChangeSaveSet'', ''ReparentWindow'',
    ''MapWindow'', ''MapSubwindows'', ''UnmapWindow'', ''UnmapSubwindows'',
    ''ConfigureWindow'', ''CirculateWindow'', ''GetGeometry'', ''QueryTree'',
    ''InternAtom'', ''GetAtomName'', ''ChangeProperty'', ''DeleteProperty'',
    ''GetProperty'', ''ListProperties'', ''SetSelectionOwner'', ''GetSelectionOwner'',
    ''ConvertSelection'', ''SendEvent'', ''GrabPointer'', ''UngrabPointer'',
    ''GrabButton'', ''UngrabButton'', ''ChangeActivePointerGrab'', ''GrabKeyboard'',
    ''UngrabKeyboard'', ''GrabKey'', ''UngrabKey'', ''AllowEvents'', ''GrabServer'',
    ''UngrabServer'', ''QueryPointer'', ''GetMotionEvents'', ''TranslateCoords'',
    ''WarpPointer'', ''SetInputFocus'', ''GetInputFocus'', ''QueryKeymap'', ''OpenFont'',
    ''CloseFont'', ''QueryFont'', ''QueryTextExtents'', ''ListFonts'',
    ''ListFontsWithInfo'', ''SetFontPath'', ''GetFontPath'', ''CreatePixmap'',
    ''FreePixmap'', ''CreateGC'', ''ChangeGC'', ''CopyGC'', ''SetDashes'',
    ''SetClipRectangles'', ''FreeGC'', ''ClearArea'', ''CopyArea'', ''CopyPlane'',
    ''PolyPoint'', ''PolyLine'', ''PolySegment'', ''PolyRectangle'', ''PolyArc'',
    ''FillPoly'', ''PolyFillRectangle'', ''PolyFillArc'', ''PutImage'', ''GetImage'',
    ''PolyText'', ''PolyText'', ''ImageText'', ''ImageText'', ''CreateColormap'',
    ''FreeColormap'', ''CopyColormapAndFree'', ''InstallColormap'', ''UninstallColormap'',
    ''ListInstalledColormaps'', ''AllocColor'', ''AllocNamedColor'', ''AllocColorCells'',
    ''AllocColorPlanes'', ''FreeColors'', ''StoreColors'', ''StoreNamedColor'',
    ''QueryColors'', ''LookupColor'', ''CreateCursor'', ''CreateGlyphCursor'',
    ''FreeCursor'', ''RecolorCursor'', ''QueryBestSize'', ''QueryExtension'',
    ''ListExtensions'', ''ChangeKeyboardMapping'', ''GetKeyboardMapping'',
    ''ChangeKeyboardControl'', ''GetKeyboardControl'', ''Bell'', ''ChangePointerControl'',
    ''GetPointerControl'', ''SetScreenSaver'', ''GetScreenSaver'', ''ChangeHosts'',
    ''ListHosts'', ''SetAccessControl'', ''SetCloseDownMode'', ''KillClient'',
    ''RotateProperties'', ''ForceScreenSaver'', ''SetPointerMapping'',
    ''GetPointerMapping'', ''SetModifierMapping'', ''GetModifierMapping'', ''major 120'',
    ''major 121'', ''major 122'', ''major 123'', ''major 124'', ''major 125'',
    ''major 126'', ''NoOperation''
   ]"

record xutil_error_t =
  request_code :: "8 word"
  request_label :: string
  error_label :: string

text \<open>\<^verbatim>\<open>asprintf(&s, "%d", n)\<close> for a value that is not negative.\<close>

fun decimal :: "nat \<Rightarrow> string" where
  "decimal n =
     (if n < 10 then [''0123456789'' ! n]
      else decimal (n div 10) @ [''0123456789'' ! (n mod 10)])"

text \<open>
  \<^verbatim>\<open>xcb_generic_error_t\<close> as the 32 bytes of the wire record: \<^verbatim>\<open>response_type\<close> is
  the byte at offset 0 and \<^verbatim>\<open>error_code\<close> the byte at offset 1.
\<close>

definition response_type :: "byte list \<Rightarrow> byte" where
  "response_type e = e ! 0"

definition error_code :: "byte list \<Rightarrow> byte" where
  "error_code e = e ! 1"

definition xutil_get_error :: "byte list \<Rightarrow> fault + xutil_error_t option" where
  "xutil_get_error e =
     (if length e < 32 then Inl Oob_read
      else if response_type e \<noteq> 0 then Inr None
      else
        let rc = e ! 10 in
          Inr (Some
            \<lparr>request_code = rc,
             request_label =
               (if length xutil_request_label \<le> unat rc then decimal (unat rc)
                else xutil_request_label ! unat rc),
             error_label =
               (if length xutil_error_label \<le> unat (error_code e) then decimal (unat (error_code e))
                else xutil_error_label ! unat (error_code e))\<rparr>))"


section \<open>Properties\<close>

subsection \<open>Machine integers\<close>

lemma sint_pos_uint: "0 \<le> sint (w :: 64 word) \<Longrightarrow> uint w = sint w"
proof -
  assume a: "0 \<le> sint w"
  have "sint w < 2 ^ 63" using sint_lt [of w] by simp
  then have "sint w < 2 ^ 64" by simp
  with a have "take_bit 64 (sint w) = sint w" by (simp add: take_bit_int_eq_self)
  then show ?thesis using uint_sint [of w] by simp
qed

lemma unat_sub2: "2 \<le> sint (w :: 64 word) \<Longrightarrow> unat (w - 2) = nat (sint w) - 2"
proof -
  assume a: "2 \<le> sint w"
  then have u: "uint w = sint w" by (simp add: sint_pos_uint)
  have "uint (w - 2) = uint w - 2" using a u by (simp add: uint_sub_if_size)
  then show ?thesis using u a by (simp add: unat_eq_nat_uint nat_diff_distrib)
qed

lemma unat_sub2_of_1: "sint (w :: 64 word) = 1 \<Longrightarrow> unat (w - 2) = 2 ^ 64 - 1"
proof -
  assume "sint w = 1"
  then have "w = 1" by (metis scast_id of_int_sint word_of_int_1)
  then show ?thesis by (simp add: unsigned_minus_1_eq_mask mask_eq_exp_minus_1)
qed

lemma reply_wf_length: "reply_wf r \<Longrightarrow> length (property_value r) < 2 ^ 64 - 1"
  using unsigned_less [of "length_units r", where 'a = nat] by (simp add: reply_wf_def)

lemma no_overflow_short:
  assumes "uint (v :: 32 word) < sint (t :: 64 word) - 1"
  shows "\<not> sint t - 1 < - (2 ^ 63)"
  using assms by (simp add: uint_nat del: of_nat_unat)

lemma no_overflow_pos:
  assumes "1 \<le> sint (t :: 64 word)"
  shows "\<not> sint t - 1 < - (2 ^ 63)" and "\<not> sint t - 2 < - (2 ^ 63)"
  using assms by simp_all

lemma copy_value_short:
  assumes "uint (value_len r) < sint textlen - 1"
    and "unat (value_len r) \<le> length (property_value r)"
    and "nat (sint textlen) \<le> length buf"
  shows "copy_value r buf textlen =
    Inr ((take (unat (value_len r)) (property_value r) @ drop (unat (value_len r)) buf)
           [unat (value_len r) := 0],
         [0..<unat (value_len r)] @ [unat (value_len r)])"
proof -
  have "unat (value_len r) < length buf"
    using assms(1,3) unfolding uint_nat by linarith
  then show ?thesis
    using assms no_overflow_short [OF assms(1)]
    by (simp add: copy_value_def memcpy_def store_def uint_nat del: of_nat_unat)
qed

lemma copy_value_trunc:
  assumes "2 \<le> sint textlen"
    and "sint textlen - 1 \<le> uint (value_len r)"
    and "unat (value_len r) \<le> length (property_value r)"
    and "nat (sint textlen) \<le> length buf"
  shows "copy_value r buf textlen =
    Inr ((take (nat (sint textlen) - 2) (property_value r) @ drop (nat (sint textlen) - 2) buf)
           [nat (sint textlen) - 1 := 0],
         [0..<nat (sint textlen) - 2] @ [nat (sint textlen) - 1])"
proof -
  have n: "unat (textlen - 2) = nat (sint textlen) - 2"
    using assms(1) by (rule unat_sub2)
  have "nat (sint textlen) - 2 \<le> length (property_value r)"
    using assms(1,2,3) unfolding uint_nat by linarith
  moreover have "nat (sint textlen) - 2 \<le> length buf"
    using assms(4) by linarith
  moreover have "nat (sint textlen - 1) = nat (sint textlen) - 1"
    using assms(1) by linarith
  moreover have "\<not> int (length buf) \<le> sint textlen - 1"
    using assms(1,4) by linarith
  moreover have "\<not> sint textlen - 1 < 0"
    using assms(1) by linarith
  ultimately show ?thesis
    using assms(2) n no_overflow_pos [of textlen] assms(1)
    by (simp add: copy_value_def memcpy_def store_def)
qed

lemma copy_value_cases:
  assumes "copy_value r buf textlen = Inr (b, w)"
    and "1 \<le> sint textlen"
    and "length (property_value r) < 2 ^ 64 - 1"
  shows "(uint (value_len r) < sint textlen - 1 \<and>
          b = (take (unat (value_len r)) (property_value r) @ drop (unat (value_len r)) buf)
                [unat (value_len r) := 0] \<and>
          w = [0..<unat (value_len r)] @ [unat (value_len r)] \<and>
          unat (value_len r) < length buf \<and> unat (value_len r) \<le> length (property_value r)) \<or>
         (2 \<le> sint textlen \<and> sint textlen - 1 \<le> uint (value_len r) \<and>
          b = (take (nat (sint textlen) - 2) (property_value r) @ drop (nat (sint textlen) - 2) buf)
                [nat (sint textlen) - 1 := 0] \<and>
          w = [0..<nat (sint textlen) - 2] @ [nat (sint textlen) - 1] \<and>
          nat (sint textlen) \<le> length buf \<and> nat (sint textlen) - 2 \<le> length (property_value r))"
proof (cases "uint (value_len r) < sint textlen - 1")
  case True
  then show ?thesis
    using assms(1) no_overflow_pos [OF assms(2)]
    by (auto simp: copy_value_def memcpy_def store_def uint_nat simp del: of_nat_unat
        split: if_splits)
next
  case False
  show ?thesis
  proof (cases "sint textlen = 1")
    case True
    then have "unat (textlen - 2) = 2 ^ 64 - 1" by (rule unat_sub2_of_1)
    then have "copy_value r buf textlen = Inl Oob_read"
      using False True assms(3) by (simp add: copy_value_def memcpy_def)
    then show ?thesis using assms(1) by simp
  next
    case ne: False
    then have two: "2 \<le> sint textlen" using assms(2) by simp
    then have n: "unat (textlen - 2) = nat (sint textlen) - 2"
      by (rule unat_sub2)
    have e: "nat (sint textlen - 1) = nat (sint textlen) - 1"
      using two by linarith
    have "\<not> sint textlen - 1 < 0" using two by linarith
    moreover have "int (length buf) \<le> sint textlen - 1 \<longleftrightarrow> length buf < nat (sint textlen)"
      using two by linarith
    ultimately show ?thesis
      using False two n e assms(1) no_overflow_pos [OF assms(2)]
      by (auto simp: copy_value_def memcpy_def store_def split: if_splits)
  qed
qed

subsection \<open>The text property\<close>

lemma update_after_copy:
  assumes "n \<le> length src" and "n < length dst"
  shows "(take n src @ drop n dst)[n := v] = take n src @ v # drop (Suc n) dst"
proof -
  have "drop n dst = dst ! n # drop (Suc n) dst"
    using assms(2) by (simp add: Cons_nth_drop_Suc)
  then show ?thesis using assms(1) by (simp add: list_update_append)
qed

lemma update_after_gap:
  assumes "n \<le> length src" and "Suc n < length dst"
  shows "(take n src @ drop n dst)[Suc n := v] = take n src @ dst ! n # v # drop (Suc (Suc n)) dst"
proof -
  have "drop n dst = dst ! n # dst ! Suc n # drop (Suc (Suc n)) dst"
    using assms(2) by (simp add: Cons_nth_drop_Suc)
  then show ?thesis using assms(1) by (simp add: list_update_append)
qed

lemma gettextprop_accepted:
  assumes "format r = 8" and "value_len r \<noteq> 0"
    and "type_atom r = STRING \<or> type_atom r = xutil_intern_atom utf8_r"
    and "copy_value r buf textlen = Inr (b, w)"
    and "textlen \<noteq> 0"
  shows "\<exists>res. xutil_gettextprop (Some r) utf8_r (Some buf) textlen = Inr res \<and> ret res \<and>
           text_out res = Some b \<and> stores res = w"
  using assms by (auto simp: xutil_gettextprop_def)

text \<open>
  Claim C10. On an accepted reply that takes the truncation branch (the payload length is
  at least the buffer length minus one, the buffer length at least two), the copy fills
  the offsets from 0 to the buffer length minus three with the payload bytes, the
  terminator is stored at the buffer length minus one, and the byte at the buffer length
  minus two is neither stored to nor changed.
\<close>

theorem gettextprop_truncation_gap:
  assumes "format r = 8" and "value_len r \<noteq> 0"
    and "type_atom r = STRING \<or> type_atom r = xutil_intern_atom utf8_r"
    and "2 \<le> sint textlen" and "sint textlen - 1 \<le> uint (value_len r)"
    and "reply_wf r" and "nat (sint textlen) \<le> length buf"
  shows "\<exists>res b. xutil_gettextprop (Some r) utf8_r (Some buf) textlen = Inr res \<and> ret res \<and>
           text_out res = Some b \<and> length b = length buf \<and>
           stores res = [0..<nat (sint textlen) - 2] @ [nat (sint textlen) - 1] \<and>
           nat (sint textlen) - 2 \<notin> set (stores res) \<and>
           b ! (nat (sint textlen) - 2) = buf ! (nat (sint textlen) - 2) \<and>
           (\<forall>i < nat (sint textlen) - 2. b ! i = property_value r ! i) \<and>
           b ! (nat (sint textlen) - 1) = 0"
proof -
  define n where "n = nat (sint textlen) - 2"
  have tl: "nat (sint textlen) - 1 = Suc n" "nat (sint textlen) = Suc (Suc n)"
    using assms(4) by (simp_all add: n_def) 
  have vl: "unat (value_len r) \<le> length (property_value r)"
    using assms(1,6) by (simp add: reply_wf_def)
  have nsrc: "n \<le> length (property_value r)"
    using assms(4,5) vl unfolding uint_nat n_def by linarith
  have ndst: "Suc n < length buf" using assms(7) tl by simp
  have "textlen \<noteq> 0" using assms(4) by auto
  moreover have "copy_value r buf textlen =
      Inr (take n (property_value r) @ buf ! n # 0 # drop (Suc (Suc n)) buf, [0..<n] @ [Suc n])"
    using copy_value_trunc [OF assms(4,5) vl assms(7), folded n_def]
    by (simp only: tl(1) update_after_gap [OF nsrc ndst])
  ultimately obtain res where res: "xutil_gettextprop (Some r) utf8_r (Some buf) textlen = Inr res"
    "ret res" "text_out res = Some (take n (property_value r) @ buf ! n # 0 # drop (Suc (Suc n)) buf)"
    "stores res = [0..<n] @ [Suc n]"
    using gettextprop_accepted [OF assms(1,2,3)] by blast
  let ?b = "take n (property_value r) @ buf ! n # 0 # drop (Suc (Suc n)) buf"
  have len: "length (take n (property_value r)) = n" using nsrc by simp
  have "length ?b = length buf" using nsrc ndst by simp
  moreover have "?b ! n = buf ! n" using len by (simp add: nth_append)
  moreover have "?b ! Suc n = 0" using len by (simp add: nth_append)
  moreover have "\<forall>i<n. ?b ! i = property_value r ! i" using len by (simp add: nth_append)
  ultimately have "\<exists>res b. xutil_gettextprop (Some r) utf8_r (Some buf) textlen = Inr res \<and> ret res \<and>
           text_out res = Some b \<and> length b = length buf \<and>
           stores res = [0..<n] @ [Suc n] \<and> n \<notin> set (stores res) \<and> b ! n = buf ! n \<and>
           (\<forall>i < n. b ! i = property_value r ! i) \<and> b ! Suc n = 0"
    using res by simp
  then show ?thesis by (simp only: tl(1) n_def [symmetric])
qed

theorem gettextprop_truncation_gap_witness:
  "(let r = \<lparr>format = 8, type_atom = STRING, value_len = 20, length_units = 5,
              property_value = replicate 20 65\<rparr>;
        buf = replicate 8 255
    in format r = 8 \<and> value_len r \<noteq> 0 \<and> type_atom r = STRING \<and> 2 \<le> sint (8 :: ssize_t) \<and>
       sint (8 :: ssize_t) - 1 \<le> uint (value_len r) \<and> reply_wf r \<and>
       nat (sint (8 :: ssize_t)) \<le> length buf \<and>
       (\<exists>res b. xutil_gettextprop (Some r) None (Some buf) 8 = Inr res \<and> ret res \<and>
          text_out res = Some b \<and> stores res = [0..<6] @ [7] \<and> 6 \<notin> set (stores res) \<and>
          b ! 6 = 255 \<and> b ! 7 = 0 \<and> b ! 0 = 65 \<and> b ! 5 = 65))"
  using gettextprop_truncation_gap [of
      "\<lparr>format = 8, type_atom = STRING, value_len = 20, length_units = 5,
        property_value = replicate 20 65\<rparr>" None 8 "replicate 8 255"]
  by (auto simp: reply_wf_def STRING_def)

lemma gettextprop_true_cases:
  assumes "xutil_gettextprop (Some r) utf8_r (Some buf) textlen = Inr res" and "ret res"
  shows "format r = 8 \<and> value_len r \<noteq> 0 \<and> textlen \<noteq> 0 \<and>
    (if type_atom r = STRING \<or> type_atom r = xutil_intern_atom utf8_r
     then \<exists>b w. copy_value r buf textlen = Inr (b, w) \<and> text_out res = Some b \<and> stores res = w
     else text_out res = Some buf \<and> stores res = [])"
  using assms by (auto simp: xutil_gettextprop_def split: if_splits sum.splits)

text \<open>
  The part of claim C3 that holds on every input: the call returns false exactly when the
  reply is absent, its format is not 8, its length is zero, the buffer is null or the
  buffer length is zero.
\<close>

lemma gettextprop_false_iff:
  "(\<exists>res. xutil_gettextprop prop_r utf8_r text textlen = Inr res \<and> \<not> ret res) \<longleftrightarrow>
   (prop_r = None \<or> (\<exists>r. prop_r = Some r \<and> (format r \<noteq> 8 \<or> value_len r = 0)) \<or>
    text = None \<or> textlen = 0)"
  by (auto simp: xutil_gettextprop_def split: option.splits sum.splits)

lemma gettextprop_other_type:
  assumes "format r = 8" and "value_len r \<noteq> 0" and "textlen \<noteq> 0"
    and "type_atom r \<noteq> STRING" and "type_atom r \<noteq> xutil_intern_atom utf8_r"
  shows "xutil_gettextprop (Some r) utf8_r (Some buf) textlen =
    Inr \<lparr>ret = True, text_out = Some buf, stores = [],
         calls = [Get_property_unchecked, Get_property_reply,
                  Intern_atom ''UTF8_STRING'', P_delete_reply]\<rparr>"
  using assms by (simp add: xutil_gettextprop_def)

text \<open>
  The part of claim C2 that holds: with a buffer length of at least two, an accepted reply
  is copied as the claim says, in either branch.
\<close>

lemma gettextprop_copy:
  assumes "format r = 8" and "value_len r \<noteq> 0"
    and "type_atom r = STRING \<or> type_atom r = xutil_intern_atom utf8_r"
    and "2 \<le> sint textlen" and "reply_wf r" and "nat (sint textlen) \<le> length buf"
  shows "\<exists>res. xutil_gettextprop (Some r) utf8_r (Some buf) textlen = Inr res \<and> ret res \<and>
    (if uint (value_len r) < sint textlen - 1
     then text_out res =
            Some (take (unat (value_len r)) (property_value r) @
                  0 # drop (Suc (unat (value_len r))) buf) \<and>
          stores res = [0..<unat (value_len r)] @ [unat (value_len r)]
     else text_out res =
            Some (take (nat (sint textlen) - 2) (property_value r) @
                  buf ! (nat (sint textlen) - 2) # 0 # drop (nat (sint textlen)) buf) \<and>
          stores res = [0..<nat (sint textlen) - 2] @ [nat (sint textlen) - 1])"
proof -
  have vl: "unat (value_len r) \<le> length (property_value r)"
    using assms(1,5) by (simp add: reply_wf_def)
  have nz: "textlen \<noteq> 0" using assms(4) by auto
  show ?thesis
  proof (cases "uint (value_len r) < sint textlen - 1")
    case True
    have "unat (value_len r) < length buf"
      using True assms(6) unfolding uint_nat by linarith
    then have "copy_value r buf textlen =
        Inr (take (unat (value_len r)) (property_value r) @
             0 # drop (Suc (unat (value_len r))) buf,
             [0..<unat (value_len r)] @ [unat (value_len r)])"
      using copy_value_short [OF True vl assms(6)] update_after_copy [OF vl] by simp
    then show ?thesis
      using gettextprop_accepted [OF assms(1,2,3) _ nz] True by fastforce
  next
    case False
    define n where "n = nat (sint textlen) - 2"
    have tl: "nat (sint textlen) - 1 = Suc n" "nat (sint textlen) = Suc (Suc n)"
      using assms(4) by (simp_all add: n_def)
    have s: "sint textlen - 1 \<le> uint (value_len r)" using False by simp
    have nsrc: "n \<le> length (property_value r)"
      using assms(4) s vl unfolding uint_nat n_def by linarith
    have ndst: "Suc n < length buf" using assms(6) tl by simp
    have drop_all: "drop (nat (sint textlen)) buf = drop (Suc (Suc n)) buf"
      using tl(2) by simp
    have "copy_value r buf textlen =
        Inr (take n (property_value r) @ buf ! n # 0 # drop (Suc (Suc n)) buf, [0..<n] @ [Suc n])"
      using copy_value_trunc [OF assms(4) s vl assms(6), folded n_def]
      by (simp only: tl(1) update_after_gap [OF nsrc ndst])
    then have "\<exists>res. xutil_gettextprop (Some r) utf8_r (Some buf) textlen = Inr res \<and> ret res \<and>
        text_out res = Some (take n (property_value r) @ buf ! n # 0 # drop (Suc (Suc n)) buf) \<and>
        stores res = [0..<n] @ [Suc n]"
      using gettextprop_accepted [OF assms(1,2,3) _ nz] by blast
    then have "\<exists>res. xutil_gettextprop (Some r) utf8_r (Some buf) textlen = Inr res \<and> ret res \<and>
        text_out res = Some (take (nat (sint textlen) - 2) (property_value r) @
          buf ! (nat (sint textlen) - 2) # 0 # drop (nat (sint textlen)) buf) \<and>
        stores res = [0..<nat (sint textlen) - 2] @ [nat (sint textlen) - 1]"
      by (simp only: drop_all tl(1) n_def [symmetric])
    then show ?thesis using False by auto
  qed
qed

text \<open>
  Claim C1, as amended. For a call with a buffer length of at least one that returns true
  on a reply that xcb handed over: when the type is \<^verbatim>\<open>STRING\<close> or
  \<^verbatim>\<open>UTF8_STRING\<close>, the byte at the smaller of the payload length and the buffer
  length minus one is zero after the call (for another type the buffer is untouched and
  nothing is stored); every offset stored to is below the buffer length; and when the
  payload length is at least the buffer length, every byte stored before the terminator
  is the payload byte of the same offset, read inside the payload.
\<close>

theorem gettextprop_terminator_and_bounds:
  assumes "xutil_gettextprop (Some r) utf8_r (Some buf) textlen = Inr res"
    and "ret res" and "1 \<le> sint textlen" and "reply_wf r"
  shows "\<exists>b. text_out res = Some b \<and> length b = length buf \<and>
    (if type_atom r = STRING \<or> type_atom r = xutil_intern_atom utf8_r
     then b ! min (unat (value_len r)) (nat (sint textlen) - 1) = 0
     else b = buf \<and> stores res = []) \<and>
    (\<forall>i \<in> set (stores res). i < nat (sint textlen)) \<and>
    (sint textlen \<le> uint (value_len r) \<longrightarrow>
       (\<forall>i \<in> set (stores res). i < nat (sint textlen) - 1 \<longrightarrow>
          i < unat (value_len r) \<and> b ! i = property_value r ! i))"
proof (cases "type_atom r = STRING \<or> type_atom r = xutil_intern_atom utf8_r")
  case False
  then show ?thesis using gettextprop_true_cases [OF assms(1,2)] by simp
next
  case True
  then obtain b w where bw: "copy_value r buf textlen = Inr (b, w)"
    "text_out res = Some b" "stores res = w"
    using gettextprop_true_cases [OF assms(1,2)] by auto
  let ?v = "unat (value_len r)"
  let ?t = "nat (sint textlen)"
  from copy_value_cases [OF bw(1) assms(3) reply_wf_length [OF assms(4)]]
  show ?thesis
  proof (elim disjE conjE)
    assume s: "uint (value_len r) < sint textlen - 1"
      and b: "b = (take ?v (property_value r) @ drop ?v buf)[?v := 0]"
      and w: "w = [0..<?v] @ [?v]"
      and lb: "?v < length buf" and ls: "?v \<le> length (property_value r)"
    have m: "min ?v (?t - 1) = ?v" using s unfolding uint_nat by linarith
    have "?v < ?t" using s unfolding uint_nat by linarith
    moreover have "\<not> sint textlen \<le> uint (value_len r)" using s by linarith
    moreover have "length b = length buf" using b lb ls by simp
    moreover have "b ! ?v = 0" using b lb ls by simp
    ultimately show ?thesis using True bw(2,3) w m by auto
  next
    assume two: "2 \<le> sint textlen" and s: "sint textlen - 1 \<le> uint (value_len r)"
      and b: "b = (take (?t - 2) (property_value r) @ drop (?t - 2) buf)[?t - 1 := 0]"
      and w: "w = [0..<?t - 2] @ [?t - 1]"
      and lb: "?t \<le> length buf" and ls: "?t - 2 \<le> length (property_value r)"
    have m: "min ?v (?t - 1) = ?t - 1" using s two unfolding uint_nat by linarith
    have t1: "?t - 1 < length buf" "?t - 2 < ?t - 1" "?t - 1 < ?t" "?t - 2 < ?v"
      using lb two s unfolding uint_nat by linarith+
    have "length b = length buf" using b lb ls by simp
    moreover have "b ! (?t - 1) = 0" using b t1(1) ls lb by simp
    moreover have "\<forall>i < ?t - 2. b ! i = property_value r ! i"
      using b ls by (simp add: nth_append)
    ultimately show ?thesis using True bw(2,3) w m t1 by auto
  qed
qed

theorem gettextprop_terminator_and_bounds_witness:
  "(let r = \<lparr>format = 8, type_atom = STRING, value_len = 8, length_units = 2,
              property_value = [65, 66, 67, 68, 69, 70, 71, 72]\<rparr>;
        res = \<lparr>ret = True, text_out = Some [65, 66, 255, 0], stores = [0..<2] @ [3],
                calls = [Get_property_unchecked, Get_property_reply, P_delete_reply]\<rparr>
    in xutil_gettextprop (Some r) None (Some [255, 255, 255, 255]) 4 = Inr res \<and>
       ret res \<and> 1 \<le> sint (4 :: ssize_t) \<and> reply_wf r \<and>
       (\<exists>b. text_out res = Some b \<and> length b = 4 \<and> b ! 3 = 0 \<and> b ! 0 = 65 \<and> b ! 1 = 66 \<and>
            list_all (\<lambda>i. i < 4) (stores res)))"
proof -
  let ?r = "\<lparr>format = 8, type_atom = STRING, value_len = 8, length_units = 2,
              property_value = [65, 66, 67, 68, 69, 70, 71, 72]\<rparr>"
  let ?res = "\<lparr>ret = True, text_out = Some [65, 66, 255, 0 :: byte], stores = [0..<2] @ [3],
                calls = [Get_property_unchecked, Get_property_reply, P_delete_reply]\<rparr>"
  have h1: "xutil_gettextprop (Some ?r) None (Some [255, 255, 255, 255]) 4 = Inr ?res"
    by (simp add: xutil_gettextprop_def copy_value_def memcpy_def store_def STRING_def)
  have h2: "ret ?res" by simp
  have h3: "1 \<le> sint (4 :: ssize_t)" by simp
  have h4: "reply_wf ?r" by (simp add: reply_wf_def)
  show ?thesis
    using gettextprop_terminator_and_bounds [OF h1 h2 h3 h4] h1 h4
    by (auto simp: STRING_def list_all_iff)
qed

text \<open>
  Claim C1 as stated fails: a payload of five bytes in a buffer of eight is terminated at
  offset 5, and the byte at offset 7 keeps its old value.
\<close>

theorem gettextprop_terminator_counterexample:
  "xutil_gettextprop
     (Some \<lparr>format = 8, type_atom = STRING, value_len = 5, length_units = 2,
            property_value = [104, 101, 108, 108, 111, 0, 0, 0]\<rparr>)
     None (Some [255, 255, 255, 255, 255, 255, 255, 255]) 8 =
   Inr \<lparr>ret = True,
        text_out = Some [104, 101, 108, 108, 111, 0, 255, 255],
        stores = [0..<5] @ [5],
        calls = [Get_property_unchecked, Get_property_reply, P_delete_reply]\<rparr> \<and>
   [104, 101, 108, 108, 111, 0, 255, 255] ! 7 = (255 :: byte)"
  by (simp add: xutil_gettextprop_def copy_value_def memcpy_def store_def STRING_def)

text \<open>
  Claim C2 at a buffer of one byte: the reply is accepted, the truncation branch computes
  the copy length \<^verbatim>\<open>textlen - 2\<close>, which is \<open>2 ^ 64 - 1\<close> as a \<^verbatim>\<open>size_t\<close>, and
  \<^verbatim>\<open>memcpy\<close> leaves the reply; no terminator is stored at offset 0.
\<close>

theorem gettextprop_size_underflow:
  "xutil_gettextprop
     (Some \<lparr>format = 8, type_atom = STRING, value_len = 1, length_units = 1,
            property_value = [65, 0, 0, 0]\<rparr>)
     None (Some [255]) 1 = Inl Oob_read"
  by (simp add: xutil_gettextprop_def copy_value_def memcpy_def store_def STRING_def
      unsigned_minus_1_eq_mask mask_eq_exp_minus_1)

text \<open>
  Claim C3 at a buffer of one byte: the reply is present, of format 8 and not empty, the
  buffer is not null and its length is not zero, yet the call does not return true.
\<close>

theorem gettextprop_one_byte_buffer_fault:
  "xutil_gettextprop
     (Some \<lparr>format = 8, type_atom = 300, value_len = 2, length_units = 1,
            property_value = [104, 105, 0, 0]\<rparr>)
     (Some 300) (Some [255]) 1 = Inl Oob_read"
  by (simp add: xutil_gettextprop_def copy_value_def memcpy_def store_def STRING_def
      xutil_intern_atom_def unsigned_minus_1_eq_mask mask_eq_exp_minus_1)

text \<open>
  Claim C4, as amended. A call whose buffer is null or whose buffer length is zero returns
  false with the buffer as it was, after the GetProperty request has been sent and without
  any other call to the X library: the reply is not waited for.
\<close>

theorem gettextprop_precheck:
  assumes "text = None \<or> textlen = 0"
  shows "xutil_gettextprop prop_r utf8_r text textlen =
    Inr \<lparr>ret = False, text_out = text, stores = [], calls = [Get_property_unchecked]\<rparr>"
  using assms by (auto simp: xutil_gettextprop_def split: option.splits)

theorem gettextprop_precheck_witness:
  "xutil_gettextprop
     (Some \<lparr>format = 8, type_atom = STRING, value_len = 1, length_units = 1,
            property_value = [65, 0, 0, 0]\<rparr>) None None 16 =
   Inr \<lparr>ret = False, text_out = None, stores = [], calls = [Get_property_unchecked]\<rparr>"
  using gettextprop_precheck [of None 16] by simp

text \<open>
  Claim C4 as stated fails: with a null buffer the call returns false, and the
  GetProperty request is among the calls made.
\<close>

theorem gettextprop_precheck_counterexample:
  "(case xutil_gettextprop None None None 16 of
      Inl e \<Rightarrow> False
    | Inr res \<Rightarrow> \<not> ret res \<and> Get_property_unchecked \<in> set (calls res))"
  by (simp add: xutil_gettextprop_def)

subsection \<open>The transient-for hint\<close>

text \<open>
  \<open>load32\<close> gives back a 32-bit unit from its four bytes, in either byte order.
\<close>

lemma load32_little_endian:
  "load32 False [ucast w, ucast (drop_bit 8 w), ucast (drop_bit 16 w), ucast (drop_bit 24 w)]
     = (w :: 32 word)"
proof (rule bit_word_eqI)
  fix n
  assume "n < LENGTH(32)"
  then have n: "n < 32" by simp
  consider "n < 8" | "8 \<le> n" "n < 16" | "16 \<le> n" "n < 24" | "24 \<le> n"
    by linarith
  then show "bit (load32 False [ucast w, ucast (drop_bit 8 w), ucast (drop_bit 16 w),
      ucast (drop_bit 24 w)]) n \<longleftrightarrow> bit w n"
    using n by cases (auto simp: load32_def bit_simps)
qed

lemma load32_big_endian:
  "load32 True [ucast (drop_bit 24 w), ucast (drop_bit 16 w), ucast (drop_bit 8 w), ucast w]
     = (w :: 32 word)"
proof (rule bit_word_eqI)
  fix n
  assume "n < LENGTH(32)"
  then have n: "n < 32" by simp
  consider "n < 8" | "8 \<le> n" "n < 16" | "16 \<le> n" "n < 24" | "24 \<le> n"
    by linarith
  then show "bit (load32 True [ucast (drop_bit 24 w), ucast (drop_bit 16 w),
      ucast (drop_bit 8 w), ucast w]) n \<longleftrightarrow> bit w n"
    using n by cases (auto simp: load32_def bit_simps)
qed

text \<open>
  Claim C6. With a valid output pointer and a reply that xcb handed over: if the reply is
  absent, or its type is not \<^verbatim>\<open>WINDOW\<close>, or its format is not 32, or its length is
  zero, the output window is \<^verbatim>\<open>XCB_NONE\<close> and the result is false; otherwise the
  payload holds at least four bytes, the output window is the 32-bit unit made of the
  first four, and the result is true.
\<close>

theorem transient_for_hint_exact:
  assumes "prop_win = Some w0" and "\<forall>r. t_hint_r = Some r \<longrightarrow> reply_wf r"
  shows "((t_hint_r = None \<or>
           (\<exists>r. t_hint_r = Some r \<and> (type_atom r \<noteq> WINDOW \<or> format r \<noteq> 32 \<or> length_units r = 0)))
          \<longrightarrow> xutil_get_transient_for_hint big_endian t_hint_r prop_win = Inr (False, XCB_NONE)) \<and>
         (\<forall>r. t_hint_r = Some r \<and> type_atom r = WINDOW \<and> format r = 32 \<and> length_units r \<noteq> 0
          \<longrightarrow> 4 \<le> length (property_value r) \<and>
              xutil_get_transient_for_hint big_endian t_hint_r prop_win =
                Inr (True, load32 big_endian (take 4 (property_value r))))"
proof -
  have len4: "4 \<le> length (property_value r)" if "t_hint_r = Some r" "length_units r \<noteq> 0" for r
  proof -
    have "unat (length_units r) \<noteq> 0" using that(2) by (simp add: unat_eq_0)
    then show ?thesis using assms(2) that(1) by (simp add: reply_wf_def)
  qed
  have ld: "load32 big_endian (take 4 bs) = load32 big_endian bs" for bs :: "byte list"
    by (simp add: load32_def)
  show ?thesis
  proof (cases t_hint_r)
    case None
    then show ?thesis
      using assms(1) by (simp add: xutil_get_transient_for_hint_def set_prop_win_def)
  next
    case (Some r)
    show ?thesis
    proof (cases "type_atom r \<noteq> WINDOW \<or> format r \<noteq> 32 \<or> length_units r = 0")
      case True
      then show ?thesis
        using assms(1) Some
        by (auto simp: xutil_get_transient_for_hint_def set_prop_win_def)
    next
      case False
      then have "4 \<le> length (property_value r)" using len4 [OF Some] by simp
      then show ?thesis
        using assms(1) Some False
        by (simp add: xutil_get_transient_for_hint_def set_prop_win_def ld)
    qed
  qed
qed

theorem transient_for_hint_exact_witness:
  "(let r = \<lparr>format = 32, type_atom = WINDOW, value_len = 1, length_units = 1,
              property_value = [0x78, 0x56, 0x34, 0x12]\<rparr>
    in reply_wf r \<and> 4 \<le> length (property_value r) \<and>
       xutil_get_transient_for_hint False (Some r) (Some 7) = Inr (True, 0x12345678) \<and>
       xutil_get_transient_for_hint True (Some r) (Some 7) = Inr (True, 0x78563412))"
  using transient_for_hint_exact [of "Some 7" 7
      "Some \<lparr>format = 32, type_atom = WINDOW, value_len = 1, length_units = 1,
             property_value = [0x78, 0x56, 0x34, 0x12]\<rparr>" False]
    transient_for_hint_exact [of "Some 7" 7
      "Some \<lparr>format = 32, type_atom = WINDOW, value_len = 1, length_units = 1,
             property_value = [0x78, 0x56, 0x34, 0x12]\<rparr>" True]
  by (simp add: reply_wf_def WINDOW_def load32_def)

subsection \<open>The class hint\<close>

lemma a_strlen_append:
  "0 \<notin> set xs \<Longrightarrow> a_strlen (xs @ 0 # ys) = Inr (length xs)"
  by (induction xs) auto

lemma strndup_append:
  assumes "0 \<notin> set xs"
  shows "strndup (xs @ ys) (length xs) = Inr xs"
proof -
  have "\<forall>x\<in>set xs. x \<noteq> 0" using assms by auto
  then have tw: "takeWhile (\<lambda>b. b \<noteq> 0) xs = xs"
    by (rule takeWhile_eq_all_conv [THEN iffD2])
  show ?thesis by (simp add: strndup_def Let_def tw)
qed

text \<open>
  The part of claim C5 that holds: when the payload starts with two strings that each
  end in a zero byte, the instance is the first and the class is the second.
\<close>

lemma class_hint_split:
  assumes "type_atom r = STRING" and "format r = 8"
    and "property_value r = name @ 0 # cls @ 0 # rest"
    and "0 \<notin> set name" and "0 \<notin> set cls"
  shows "xutil_get_class_hint (Some r) = Inr (Some \<lparr>res_name = name, res_class = cls\<rparr>)"
proof -
  have d: "drop (Suc (length name)) (property_value r) = cls @ 0 # rest"
    by (simp add: assms(3))
  have "a_strlen (property_value r) = Inr (length name)"
    unfolding assms(3) by (rule a_strlen_append [OF assms(4)])
  moreover have "a_strlen (cls @ 0 # rest) = Inr (length cls)"
    by (rule a_strlen_append [OF assms(5)])
  moreover have "strndup (property_value r) (length name) = Inr name"
    unfolding assms(3) by (rule strndup_append [OF assms(4)])
  moreover have "strndup (cls @ 0 # rest) (length cls) = Inr cls"
    by (rule strndup_append [OF assms(5)])
  ultimately show ?thesis
    using assms(1,2) by (simp add: xutil_get_class_hint_def d)
qed

text \<open>
  Claim C5 on a payload with no zero byte, and on a payload whose only zero byte is its
  last byte: the length scans of lines 217 and 218 run past the end of the reply.
\<close>

theorem class_hint_reads_past_reply:
  "xutil_get_class_hint
     (Some \<lparr>format = 8, type_atom = STRING, value_len = 4, length_units = 1,
            property_value = [97, 98, 99, 100]\<rparr>) = Inl Oob_read \<and>
   xutil_get_class_hint
     (Some \<lparr>format = 8, type_atom = STRING, value_len = 4, length_units = 1,
            property_value = [97, 98, 99, 0]\<rparr>) = Inl Oob_read"
  by (simp add: xutil_get_class_hint_def)

subsection \<open>The error labels\<close>

lemma length_error_label: "length xutil_error_label = 18"
  by (simp add: xutil_error_label_def)

lemma length_request_label: "length xutil_request_label = 128"
  by (simp add: xutil_request_label_def)

text \<open>The text that \<open>decimal\<close> gives is the decimal numeral of its argument.\<close>

lemma digit_value:
  assumes "d < 10"
  shows "of_char (''0123456789'' ! d) = 48 + d"
proof -
  have "d \<in> {0, 1, 2, 3, 4, 5, 6, 7, 8, 9}" using assms by auto
  then show ?thesis by auto
qed

lemma decimal_value:
  "foldl (\<lambda>a c. 10 * a + (of_char c - 48)) 0 (decimal n) = n"
proof (induction n rule: decimal.induct)
  case (1 n)
  show ?case
  proof (cases "n < 10")
    case True
    then show ?thesis by (subst decimal.simps) (simp add: digit_value)
  next
    case False
    have "n mod 10 < 10" by simp
    then have "of_char (''0123456789'' ! (n mod 10)) = 48 + n mod 10" by (rule digit_value)
    then show ?thesis
      using False 1 by (subst decimal.simps) simp
  qed
qed

text \<open>
  Claim C7. For a raw error of 32 bytes whose response type is zero, the classifier
  returns a record: the request code is the byte at offset 10; the error label is the
  entry of the error table for the codes 0 to 17 and the decimal text of the code from 18
  on; the request label is the entry of the request table for an opcode below 128 and the
  decimal text of the opcode otherwise. Opcode 1 gives CreateWindow, 16 InternAtom, 127
  NoOperation and 200 the text 200.
\<close>

theorem get_error_labels:
  assumes "32 \<le> length e" and "response_type e = 0"
  shows "\<exists>err. xutil_get_error e = Inr (Some err) \<and> request_code err = e ! 10 \<and>
    error_label err =
      (if unat (error_code e) \<le> 17 then xutil_error_label ! unat (error_code e)
       else decimal (unat (error_code e))) \<and>
    request_label err =
      (if unat (e ! 10) < 128 then xutil_request_label ! unat (e ! 10)
       else decimal (unat (e ! 10))) \<and>
    (e ! 10 = 1 \<longrightarrow> request_label err = ''CreateWindow'') \<and>
    (e ! 10 = 16 \<longrightarrow> request_label err = ''InternAtom'') \<and>
    (e ! 10 = 127 \<longrightarrow> request_label err = ''NoOperation'') \<and>
    (e ! 10 = 200 \<longrightarrow> request_label err = ''200'') \<and>
    (error_code e = 3 \<longrightarrow> error_label err = ''BadWindow'') \<and>
    (error_code e = 17 \<longrightarrow> error_label err = ''BadImplementation'') \<and>
    (error_code e = 18 \<longrightarrow> error_label err = ''18'') \<and>
    (error_code e = 255 \<longrightarrow> error_label err = ''255'')"
proof -
  have r1: "xutil_request_label ! Suc 0 = ''CreateWindow''"
    and r16: "xutil_request_label ! 16 = ''InternAtom''"
    and r127: "xutil_request_label ! 127 = ''NoOperation''"
    by (simp_all add: xutil_request_label_def)
  have e3: "xutil_error_label ! 3 = ''BadWindow''"
    and e17: "xutil_error_label ! 17 = ''BadImplementation''"
    by (simp_all add: xutil_error_label_def)
  have d: "decimal 200 = ''200''" "decimal 18 = ''18''" "decimal 255 = ''255''"
    by simp_all
  let ?rl = "if unat (e ! 10) < 128 then xutil_request_label ! unat (e ! 10)
             else decimal (unat (e ! 10))"
  let ?el = "if unat (error_code e) \<le> 17 then xutil_error_label ! unat (error_code e)
             else decimal (unat (error_code e))"
  have "xutil_get_error e =
      Inr (Some \<lparr>request_code = e ! 10, request_label = ?rl, error_label = ?el\<rparr>)"
    using assms
    by (auto simp: xutil_get_error_def Let_def length_error_label length_request_label
        simp del: decimal.simps)
  moreover have "e ! 10 = 1 \<longrightarrow> ?rl = ''CreateWindow''" by (simp add: r1 del: decimal.simps)
  moreover have "e ! 10 = 16 \<longrightarrow> ?rl = ''InternAtom''" by (simp add: r16 del: decimal.simps)
  moreover have "e ! 10 = 127 \<longrightarrow> ?rl = ''NoOperation''" by (simp add: r127 del: decimal.simps)
  moreover have "e ! 10 = 200 \<longrightarrow> ?rl = ''200''" by (simp add: d del: decimal.simps)
  moreover have "error_code e = 3 \<longrightarrow> ?el = ''BadWindow''" by (simp add: e3 del: decimal.simps)
  moreover have "error_code e = 17 \<longrightarrow> ?el = ''BadImplementation''"
    by (simp add: e17 del: decimal.simps)
  moreover have "error_code e = 18 \<longrightarrow> ?el = ''18''" by (simp add: d del: decimal.simps)
  moreover have "error_code e = 255 \<longrightarrow> ?el = ''255''" by (simp add: d del: decimal.simps)
  ultimately show ?thesis
    by (intro exI [of _ "\<lparr>request_code = e ! 10, request_label = ?rl, error_label = ?el\<rparr>"])
      (simp del: decimal.simps)
qed

theorem get_error_labels_witness:
  "(let e = [0, 3] @ replicate 8 0 @ [16] @ replicate 21 0
    in 32 \<le> length e \<and> response_type e = 0 \<and>
       xutil_get_error e =
         Inr (Some \<lparr>request_code = 16, request_label = ''InternAtom'',
                     error_label = ''BadWindow''\<rparr>))"
  using get_error_labels [of "[0, 3] @ replicate 8 0 @ [16] @ replicate 21 0"]
  by (auto simp: response_type_def error_code_def nth_append)

subsection \<open>The lock masks\<close>

text \<open>
  Claim C8 on an absent modifier-mapping reply: the first loop condition reads
  \<^verbatim>\<open>modmap_r->keycodes_per_modifier\<close> through the null pointer.
\<close>

theorem get_lock_masks_null_reply:
  "xutil_getlockmask None keysyms m = Inl Null_deref"
  by (simp add: xutil_getlockmask_def)






lemma cell_lock_assign [simp]:
  "cell_lock keysyms (assign_cell keysyms c m) kc = cell_lock keysyms m kc"
  by (auto simp: assign_cell_def cell_lock_def split: option.splits lock.splits)

lemma cell_lock_fold [simp]:
  "cell_lock keysyms (fold (assign_cell keysyms) cs m) kc = cell_lock keysyms m kc"
  by (induction cs arbitrary: m) simp_all








end
